theory Spec2Isabelle
  imports Complex_Main
begin

section \<open>Values of the site table\<close>

text \<open>
  The site pipeline of \<^verbatim>\<open>app.py\<close> (lines 89 to 163) works on the rows of a data
  frame turned into Python dictionaries. A coordinate is a Python float, that is an
  IEEE 754 double. The model keeps the special values of a double, because pandas
  reads an empty cell of the CSV file as NaN and fills a name that the left join
  cannot resolve with NaN. A finite double is the real number it stands for; the two
  zeros are not told apart, which no comparison of the source does either.
\<close>

datatype pyfloat = Fin real | PInf | NInf | NaN

text \<open>
  Rounding to the nearest double, ties to the even mantissa: the rounding of every
  arithmetic operation on doubles and of the conversion of a decimal literal. A double
  has a mantissa of 53 bits and an exponent from -1022 to 1023; below \<open>2 ^ -1022\<close>
  the spacing stays \<open>2 ^ -1074\<close> (subnormal numbers), and a result that rounds to
  \<open>2 ^ 1024\<close> or more is infinite. \<open>exponent_search\<close> finds the exponent by
  bisection of the interval from -1022 to 1024, which eleven steps exhaust.
\<close>

definition pow2 :: "int \<Rightarrow> real" where
  "pow2 e = (if 0 \<le> e then 2 ^ nat e else 1 / 2 ^ nat (- e))"

fun exponent_search :: "nat \<Rightarrow> int \<Rightarrow> int \<Rightarrow> real \<Rightarrow> int" where
  "exponent_search 0 lo hi a = lo"
| "exponent_search (Suc k) lo hi a =
     (let mid = (lo + hi) div 2
      in if pow2 mid \<le> a then exponent_search k mid hi a else exponent_search k lo mid a)"

definition round_half_even :: "real \<Rightarrow> int" where
  "round_half_even q =
     (let n = \<lfloor>q\<rfloor>; r = q - of_int n
      in if r < 1 / 2 then n else if 1 / 2 < r then n + 1 else if even n then n else n + 1)"

definition round64 :: "real \<Rightarrow> pyfloat" where
  "round64 x =
     (let a = \<bar>x\<bar>
      in if a = 0 then Fin 0
         else if pow2 1024 \<le> a then (if x < 0 then NInf else PInf)
         else
           (let e = exponent_search 11 (- 1022) 1024 a;
                u = pow2 (e - 52);
                m = of_int (round_half_even (a / u)) * u
            in if pow2 1024 \<le> m then (if x < 0 then NInf else PInf)
               else Fin (if x < 0 then - m else m)))"

text \<open>
  The operations of lines 119 to 127 on doubles: negation and absolute value are exact,
  a sum is the exact sum rounded, and a difference is the sum with the negation.
\<close>

fun fneg :: "pyfloat \<Rightarrow> pyfloat" where
  "fneg (Fin x) = Fin (- x)"
| "fneg PInf = NInf"
| "fneg NInf = PInf"
| "fneg NaN = NaN"

fun fadd :: "pyfloat \<Rightarrow> pyfloat \<Rightarrow> pyfloat" where
  "fadd NaN y = NaN"
| "fadd x NaN = NaN"
| "fadd (Fin x) (Fin y) = round64 (x + y)"
| "fadd PInf NInf = NaN"
| "fadd NInf PInf = NaN"
| "fadd PInf y = PInf"
| "fadd x PInf = PInf"
| "fadd NInf y = NInf"
| "fadd x NInf = NInf"

definition fsub :: "pyfloat \<Rightarrow> pyfloat \<Rightarrow> pyfloat" where
  "fsub x y = fadd x (fneg y)"

fun fabs :: "pyfloat \<Rightarrow> pyfloat" where
  "fabs (Fin x) = Fin \<bar>x\<bar>"
| "fabs PInf = PInf"
| "fabs NInf = PInf"
| "fabs NaN = NaN"

text \<open>Every comparison with NaN is false.\<close>

fun flt :: "pyfloat \<Rightarrow> pyfloat \<Rightarrow> bool" where
  "flt NaN y = False"
| "flt x NaN = False"
| "flt (Fin x) (Fin y) = (x < y)"
| "flt x NInf = False"
| "flt PInf y = False"
| "flt NInf y = True"
| "flt x PInf = True"

definition fgt :: "pyfloat \<Rightarrow> pyfloat \<Rightarrow> bool" where
  "fgt x y = flt y x"

fun fle :: "pyfloat \<Rightarrow> pyfloat \<Rightarrow> bool" where
  "fle NaN y = False"
| "fle x NaN = False"
| "fle (Fin x) (Fin y) = (x \<le> y)"
| "fle NInf y = True"
| "fle x PInf = True"
| "fle x NInf = False"
| "fle PInf y = False"

definition fge :: "pyfloat \<Rightarrow> pyfloat \<Rightarrow> bool" where
  "fge x y = fle y x"

text \<open>
  A cell of a row: a float, an integer, a string, or Python's \<^verbatim>\<open>None\<close>. A row is
  a dictionary from column names to cells.
\<close>

datatype pyval = PFloat pyfloat | PInt int | PStr string | PNone

type_synonym site = "string \<rightharpoonup> pyval"

text \<open>\<^verbatim>\<open>s.get(k, d)\<close> and \<^verbatim>\<open>s.get(k)\<close>, whose default is \<^verbatim>\<open>None\<close>.\<close>

definition get_default :: "site \<Rightarrow> string \<Rightarrow> pyval \<Rightarrow> pyval" where
  "get_default s k d = (case s k of None \<Rightarrow> d | Some v \<Rightarrow> v)"

definition get :: "site \<Rightarrow> string \<Rightarrow> pyval" where
  "get s k = get_default s k PNone"

text \<open>
  Python's \<^verbatim>\<open>float(v)\<close>, where \<open>None\<close> stands for the exception it raises. A float
  converts to itself. An integer converts to the nearest double, and \<^verbatim>\<open>float\<close>
  raises OverflowError when that is beyond the doubles. \<^verbatim>\<open>None\<close> raises TypeError.
  What \<^verbatim>\<open>float\<close> makes of a string is the builtin's business: it is the parameter
  \<open>parse\<close>, which returns \<open>None\<close> where the builtin raises ValueError.
\<close>

definition py_float :: "(string \<Rightarrow> pyfloat option) \<Rightarrow> pyval \<Rightarrow> pyfloat option" where
  "py_float parse v =
     (case v of
        PFloat x \<Rightarrow> Some x
      | PInt i \<Rightarrow> (case round64 (of_int i) of Fin r \<Rightarrow> Some (Fin r) | _ \<Rightarrow> None)
      | PStr t \<Rightarrow> parse t
      | PNone \<Rightarrow> None)"

section \<open>The centroid table and the audit log\<close>

text \<open>Lines 99 to 104; each literal is the double nearest to the decimal.\<close>

definition country_centroids :: "string \<rightharpoonup> pyfloat \<times> pyfloat" where
  "country_centroids =
     [''DRC (Congo)'' \<mapsto> (round64 (- 4.038333), round64 21.758664),
      ''South Africa'' \<mapsto> (round64 (- 30.559482), round64 22.937506),
      ''Mozambique'' \<mapsto> (round64 (- 18.665695), round64 35.529562),
      ''Namibia'' \<mapsto> (round64 (- 22.9576), round64 18.4904)]"

text \<open>
  \<^verbatim>\<open>cname in country_centroids\<close> and \<^verbatim>\<open>country_centroids[cname]\<close>: the keys of the
  table are strings, so a name that is not a string is not in it.
\<close>

definition centroid_of :: "pyval \<Rightarrow> (pyfloat \<times> pyfloat) option" where
  "centroid_of cname = (case cname of PStr n \<Rightarrow> country_centroids n | _ \<Rightarrow> None)"

datatype action = swap_latlon | mismatch

text \<open>
  An entry of the list \<^verbatim>\<open>corrections\<close>: a dictionary with the keys below, of which
  \<^verbatim>\<open>new\<close> is present in a swap entry only and \<^verbatim>\<open>country_centroid\<close> in a mismatch
  entry only.
\<close>

record correction =
  SiteID :: pyval
  SiteName :: pyval
  CountryName :: pyval
  action :: action
  old :: "pyfloat \<times> pyfloat"
  new :: "(pyfloat \<times> pyfloat) option"
  country_centroid :: "(pyfloat \<times> pyfloat) option"

section \<open>The correction loop\<close>

text \<open>
  The state of one iteration is the log \<^verbatim>\<open>corrections\<close> and the row \<^verbatim>\<open>s\<close>, which
  the source updates in place. Each statement of a branch is a function on this pair,
  and the body composes them in the order of the source.
\<close>

type_synonym iter_state = "correction list \<times> site"

text \<open>Lines 128 and 129: the swap entry is appended to the log.\<close>

definition log_swap ::
  "pyval \<Rightarrow> pyfloat \<Rightarrow> pyfloat \<Rightarrow> pyfloat \<Rightarrow> pyfloat \<Rightarrow> iter_state \<Rightarrow> iter_state" where
  "log_swap cname lat lon swapped_lat swapped_lon st =
     (case st of (corrections, s) \<Rightarrow>
        (corrections @
           [\<lparr>SiteID = get s ''SiteID'', SiteName = get s ''SiteName'', CountryName = cname,
             action = swap_latlon, old = (lat, lon), new = Some (swapped_lat, swapped_lon),
             country_centroid = None\<rparr>],
         s))"

text \<open>Lines 135 and 136: the mismatch entry is appended to the log.\<close>

definition log_mismatch ::
  "pyval \<Rightarrow> pyfloat \<Rightarrow> pyfloat \<Rightarrow> pyfloat \<Rightarrow> pyfloat \<Rightarrow> iter_state \<Rightarrow> iter_state" where
  "log_mismatch cname lat lon c_lat c_lon st =
     (case st of (corrections, s) \<Rightarrow>
        (corrections @
           [\<lparr>SiteID = get s ''SiteID'', SiteName = get s ''SiteName'', CountryName = cname,
             action = mismatch, old = (lat, lon), new = None,
             country_centroid = Some (c_lat, c_lon)\<rparr>],
         s))"

text \<open>The assignment \<^verbatim>\<open>s[k] = v\<close> (lines 130, 131 and 139).\<close>

definition setitem :: "string \<Rightarrow> pyval \<Rightarrow> iter_state \<Rightarrow> iter_state" where
  "setitem k v st = (case st of (corrections, s) \<Rightarrow> (corrections, s(k \<mapsto> v)))"

text \<open>
  The expressions of lines 109, 110, 119, 124 and 125, and the window in the spec's
  words. Each is the double that the source computes: \<open>manhattan\<close> is the rounded sum
  of two rounded differences, so two pairs whose exact distances tie may get
  different values, and two pairs whose exact distances differ may get the same one.
\<close>

abbreviation parsed_lat :: "(string \<Rightarrow> pyfloat option) \<Rightarrow> site \<Rightarrow> pyfloat option" where
  "parsed_lat parse s \<equiv> py_float parse (get_default s ''Latitude'' (PInt 0))"

abbreviation parsed_lon :: "(string \<Rightarrow> pyfloat option) \<Rightarrow> site \<Rightarrow> pyfloat option" where
  "parsed_lon parse s \<equiv> py_float parse (get_default s ''Longitude'' (PInt 0))"

abbreviation large_discrepancy :: "pyfloat \<Rightarrow> pyfloat \<Rightarrow> pyfloat \<Rightarrow> pyfloat \<Rightarrow> bool" where
  "large_discrepancy lat lon c_lat c_lon \<equiv>
     fgt (fabs (fsub lat c_lat)) (Fin 10) \<or> fgt (fabs (fsub lon c_lon)) (Fin 20)"

abbreviation manhattan :: "pyfloat \<Rightarrow> pyfloat \<Rightarrow> pyfloat \<Rightarrow> pyfloat \<Rightarrow> pyfloat" where
  "manhattan lat lon c_lat c_lon \<equiv> fadd (fabs (fsub lat c_lat)) (fabs (fsub lon c_lon))"

abbreviation within_window :: "pyfloat \<Rightarrow> pyfloat \<Rightarrow> pyfloat \<Rightarrow> pyfloat \<Rightarrow> bool" where
  "within_window lat lon c_lat c_lon \<equiv>
     fle (fabs (fsub lat c_lat)) (Fin 10) \<and> fle (fabs (fsub lon c_lon)) (Fin 20)"

text \<open>The two notes of lines 132 and 137.\<close>

abbreviation swap_note :: string where
  "swap_note \<equiv> ''Swapped lat/lon due to large mismatch with country centroid.''"

abbreviation review_note :: string where
  "review_note \<equiv> ''Coordinate far from assigned country centroid; left unchanged for manual review.''"

text \<open>
  The body of the loop over \<^verbatim>\<open>sites\<close> (lines 108 to 140), for one row \<open>s\<close> and the
  log so far. It returns the log and the row that line 112 or line 140 appends to
  \<^verbatim>\<open>corrected_sites\<close>. No exception leaves the body: the two calls of \<^verbatim>\<open>float\<close> are
  the only statements that can raise, and line 111 catches what they raise.
\<close>

definition correct_site ::
  "(string \<Rightarrow> pyfloat option) \<Rightarrow> site \<Rightarrow> correction list \<Rightarrow> iter_state" where
  "correct_site parse s corrections =
     (case parsed_lat parse s of
        None \<Rightarrow> (corrections, s)
      | Some lat \<Rightarrow>
         (case parsed_lon parse s of
            None \<Rightarrow> (corrections, s)
          | Some lon \<Rightarrow>
             (let cname = get s ''CountryName'' in
              case centroid_of cname of
                None \<Rightarrow> (corrections, s)
              | Some (c_lat, c_lon) \<Rightarrow>
                 if fgt (fabs (fsub lat c_lat)) (Fin 10) \<or> fgt (fabs (fsub lon c_lon)) (Fin 20)
                 then
                   (let swapped_lat = lon; swapped_lon = lat;
                        dist_orig = fadd (fabs (fsub lat c_lat)) (fabs (fsub lon c_lon));
                        dist_swapped =
                          fadd (fabs (fsub swapped_lat c_lat)) (fabs (fsub swapped_lon c_lon));
                        (st, note) =
                          (if flt dist_swapped dist_orig
                           then
                             (setitem ''Longitude'' (PFloat swapped_lon)
                                (setitem ''Latitude'' (PFloat swapped_lat)
                                   (log_swap cname lat lon swapped_lat swapped_lon
                                      (corrections, s))),
                              ''Swapped lat/lon due to large mismatch with country centroid.'')
                           else
                             (log_mismatch cname lat lon c_lat c_lon (corrections, s),
                              ''Coordinate far from assigned country centroid; left unchanged for manual review.''))
                    in setitem ''Note'' (PStr note) st)
                 else (corrections, s))))"

text \<open>The loop itself: rows in order, the log and \<^verbatim>\<open>corrected_sites\<close> threaded through.\<close>

fun correction_loop ::
  "(string \<Rightarrow> pyfloat option) \<Rightarrow> site list \<Rightarrow> correction list \<times> site list \<Rightarrow>
     correction list \<times> site list" where
  "correction_loop parse [] acc = acc"
| "correction_loop parse (s # sites) (corrections, corrected_sites) =
     (case correct_site parse s corrections of
        (corrections', s') \<Rightarrow>
          correction_loop parse sites (corrections', corrected_sites @ [s']))"

text \<open>
  The source computes no classification value: the three classes of the spec name the
  branches of the body. \<open>classify\<close> returns the branch that the body takes, under the
  conditions of lines 108 to 127, and \<open>None\<close> for a row that line 111 skips.
\<close>

datatype classification = consistent | swap_correctable | unresolved_mismatch

definition classify :: "(string \<Rightarrow> pyfloat option) \<Rightarrow> site \<Rightarrow> classification option" where
  "classify parse s =
     (case parsed_lat parse s of
        None \<Rightarrow> None
      | Some lat \<Rightarrow>
         (case parsed_lon parse s of
            None \<Rightarrow> None
          | Some lon \<Rightarrow>
             (case centroid_of (get s ''CountryName'') of
                None \<Rightarrow> Some consistent
              | Some (c_lat, c_lon) \<Rightarrow>
                 if fgt (fabs (fsub lat c_lat)) (Fin 10) \<or> fgt (fabs (fsub lon c_lon)) (Fin 20)
                 then
                   (if flt (fadd (fabs (fsub lon c_lat)) (fabs (fsub lat c_lon)))
                           (fadd (fabs (fsub lat c_lat)) (fabs (fsub lon c_lon)))
                    then Some swap_correctable
                    else Some unresolved_mismatch)
                 else Some consistent)))"

section \<open>The reference join\<close>

text \<open>
  Lines 92 to 96. The name column of \<^verbatim>\<open>minerals_indexed\<close> is a frame of one column
  with the identifiers as its index: a list of pairs of an index value and a name, in
  the order of the rows of \<^verbatim>\<open>minerals_df\<close>, which is the concatenation of two CSV
  files (line 37) and need not have distinct identifiers. The left merge of pandas
  keeps the rows of the left frame in their order and yields, for each of them, one
  row for every entry of the right frame whose index equals the key, or one row with
  NaN in the new column when there is none.
\<close>

definition merge_left ::
  "string \<Rightarrow> string \<Rightarrow> (pyval \<times> pyval) list \<Rightarrow> site list \<Rightarrow> site list" where
  "merge_left left_on col right left =
     concat (map (\<lambda>row.
       (case filter (\<lambda>(k, v). k = get row left_on) right of
          [] \<Rightarrow> [row(col \<mapsto> PFloat NaN)]
        | ms \<Rightarrow> map (\<lambda>(k, v). row(col \<mapsto> v)) ms)) left)"

text \<open>
  Lines 90 to 141: the two merges, \<^verbatim>\<open>to_dict('records')\<close> and the correction loop.
  The result is the log and the list \<^verbatim>\<open>sites\<close> of line 141. Lines 142 to 160 print
  the log and write a copy of the rows; they change neither.
\<close>

definition load_sites ::
  "(string \<Rightarrow> pyfloat option) \<Rightarrow> (pyval \<times> pyval) list \<Rightarrow> (pyval \<times> pyval) list \<Rightarrow>
     site list \<Rightarrow> correction list \<times> site list" where
  "load_sites parse minerals_indexed countries_indexed sites_df =
     (let sites_df1 = merge_left ''MineralID'' ''MineralName'' minerals_indexed sites_df;
          sites_df2 = merge_left ''CountryID'' ''CountryName'' countries_indexed sites_df1;
          sites = sites_df2
      in correction_loop parse sites ([], []))"

text \<open>The name that the merge attaches to a key when the index values are distinct.\<close>

abbreviation name_or_nan :: "(pyval \<times> pyval) list \<Rightarrow> pyval \<Rightarrow> pyval" where
  "name_or_nan right key \<equiv> (case map_of right key of None \<Rightarrow> PFloat NaN | Some n \<Rightarrow> n)"

text \<open>
  The merge above is that of pandas for frames of the shape that section 6 of the spec
  gives them: the identifier columns hold integers on both sides, and a row of
  \<^verbatim>\<open>sites.csv\<close> has its two identifiers and no name column of its own. On other
  frames pandas may raise (a missing key column, key columns of different types) or
  rename columns (a name column on both sides); the model is not meant for them.
\<close>

definition int_key :: "pyval \<Rightarrow> bool" where
  "int_key v = (case v of PInt i \<Rightarrow> True | _ \<Rightarrow> False)"

definition raw_site_row :: "site \<Rightarrow> bool" where
  "raw_site_row row \<longleftrightarrow>
     int_key (get row ''MineralID'') \<and> int_key (get row ''CountryID'') \<and>
     row ''MineralName'' = None \<and> row ''CountryName'' = None"

definition reference_table :: "(pyval \<times> pyval) list \<Rightarrow> bool" where
  "reference_table right \<longleftrightarrow> list_all (\<lambda>(k, n). int_key k) right"

section \<open>Example rows\<close>

text \<open>
  Rows for the concrete instances below; a coordinate written \<open>round64 d\<close> is the
  double nearest to the decimal \<open>d\<close>. None of the rows has a string coordinate except
  \<open>row_johannesburg\<close> and \<open>row_text_lat\<close>; \<open>no_strings\<close> is a \<^verbatim>\<open>float\<close> that
  accepts no string and \<open>parse_2804\<close> one that accepts \<^verbatim>\<open>'28.04'\<close> only.
\<close>

abbreviation no_strings :: "string \<Rightarrow> pyfloat option" where
  "no_strings \<equiv> \<lambda>t. None"

abbreviation parse_2804 :: "string \<Rightarrow> pyfloat option" where
  "parse_2804 \<equiv> \<lambda>t. if t = ''28.04'' then Some (round64 28.04) else None"

abbreviation row_sa_transposed :: site where
  "row_sa_transposed \<equiv>
     [''SiteID'' \<mapsto> PInt 1, ''SiteName'' \<mapsto> PStr ''Venetia'',
      ''CountryName'' \<mapsto> PStr ''South Africa'',
      ''Latitude'' \<mapsto> PFloat (round64 22.94), ''Longitude'' \<mapsto> PFloat (round64 (- 30.56))]"

abbreviation row_namibia_tie :: site where
  "row_namibia_tie \<equiv>
     [''SiteID'' \<mapsto> PInt 2, ''SiteName'' \<mapsto> PStr ''Rossing'',
      ''CountryName'' \<mapsto> PStr ''Namibia'',
      ''Latitude'' \<mapsto> PFloat (Fin 5.0), ''Longitude'' \<mapsto> PFloat (Fin 5.0)]"

abbreviation row_johannesburg :: site where
  "row_johannesburg \<equiv>
     [''SiteID'' \<mapsto> PInt 3, ''CountryName'' \<mapsto> PStr ''South Africa'',
      ''Latitude'' \<mapsto> PFloat (round64 (- 26.2)), ''Longitude'' \<mapsto> PStr ''28.04'']"

abbreviation row_empty_lat :: site where
  "row_empty_lat \<equiv>
     [''SiteID'' \<mapsto> PInt 4, ''CountryName'' \<mapsto> PStr ''South Africa'',
      ''Latitude'' \<mapsto> PFloat NaN, ''Longitude'' \<mapsto> PFloat (round64 (- 26.2))]"

abbreviation row_no_lat :: site where
  "row_no_lat \<equiv>
     [''SiteID'' \<mapsto> PInt 5, ''CountryName'' \<mapsto> PStr ''Namibia'',
      ''Longitude'' \<mapsto> PFloat (round64 18.49)]"

abbreviation row_text_lat :: site where
  "row_text_lat \<equiv>
     [''SiteID'' \<mapsto> PInt 6, ''CountryName'' \<mapsto> PStr ''Namibia'',
      ''Latitude'' \<mapsto> PStr ''unknown'', ''Longitude'' \<mapsto> PFloat (Fin 5.0)]"

abbreviation row_unknown_country :: site where
  "row_unknown_country \<equiv>
     [''SiteID'' \<mapsto> PInt 7, ''CountryName'' \<mapsto> PFloat NaN,
      ''Latitude'' \<mapsto> PFloat (Fin 50), ''Longitude'' \<mapsto> PFloat (Fin 60)]"

abbreviation row_mount_isa :: site where
  "row_mount_isa \<equiv>
     [''SiteID'' \<mapsto> PInt 8, ''CountryName'' \<mapsto> PStr ''South Africa'',
      ''Latitude'' \<mapsto> PFloat (round64 139.49), ''Longitude'' \<mapsto> PFloat (round64 (- 20.73))]"

abbreviation row_drc_tie :: site where
  "row_drc_tie \<equiv>
     [''SiteID'' \<mapsto> PInt 9, ''CountryName'' \<mapsto> PStr ''DRC (Congo)'',
      ''Latitude'' \<mapsto> PFloat (Fin 40.0), ''Longitude'' \<mapsto> PFloat (Fin 56.5)]"

abbreviation row_sa_near_tie :: site where
  "row_sa_near_tie \<equiv>
     [''SiteID'' \<mapsto> PInt 10, ''CountryName'' \<mapsto> PStr ''South Africa'',
      ''Latitude'' \<mapsto> PFloat (round64 10.000000000000002),
      ''Longitude'' \<mapsto> PFloat (Fin 10.0)]"

abbreviation row_drc_boundary :: site where
  "row_drc_boundary \<equiv>
     [''SiteID'' \<mapsto> PInt 11, ''CountryName'' \<mapsto> PStr ''DRC (Congo)'',
      ''Latitude'' \<mapsto> PFloat (round64 5.961667),
      ''Longitude'' \<mapsto> PFloat (round64 21.758664)]"

abbreviation raw_row_a :: site where
  "raw_row_a \<equiv>
     [''SiteID'' \<mapsto> PInt 1, ''MineralID'' \<mapsto> PInt 2, ''CountryID'' \<mapsto> PInt 10,
      ''Latitude'' \<mapsto> PFloat (Fin (- 22.5)), ''Longitude'' \<mapsto> PFloat (Fin 17.0)]"

abbreviation raw_row_b :: site where
  "raw_row_b \<equiv>
     [''SiteID'' \<mapsto> PInt 2, ''MineralID'' \<mapsto> PInt 9, ''CountryID'' \<mapsto> PInt 11,
      ''Latitude'' \<mapsto> PFloat (Fin 1.5), ''Longitude'' \<mapsto> PFloat (Fin 2.5)]"

section \<open>Facts about the float operations\<close>

text \<open>Rules that evaluate the arithmetic on numerals.\<close>

lemma exponent_search_numeral:
  "exponent_search (numeral n) lo hi a =
     (let mid = (lo + hi) div 2
      in if pow2 mid \<le> a then exponent_search (pred_numeral n) mid hi a
         else exponent_search (pred_numeral n) lo mid a)"
  by (simp add: numeral_eq_Suc)

lemma round64_0: "round64 0 = Fin 0"
  by (simp add: round64_def)

lemmas float_eval =
  round64_def round_half_even_def pow2_def exponent_search_numeral fsub_def fgt_def fge_def
  Let_def

lemma fle_not_fgt: "fle x y \<Longrightarrow> \<not> fgt x y"
  by (cases x; cases y) (simp_all add: fgt_def)


lemma flt_asym: "flt x y \<Longrightarrow> \<not> flt y x"
  by (cases x; cases y) simp_all

lemma flt_not_NaN: "flt x y \<Longrightarrow> x \<noteq> NaN \<and> y \<noteq> NaN"
  by (cases x; cases y) simp_all


lemma fadd_not_NaN: "fadd x y \<noteq> NaN \<Longrightarrow> x \<noteq> NaN \<and> y \<noteq> NaN"
  by (cases x; cases y) simp_all

text \<open>
  Where the distance is a number, line 119 holds exactly when the row is outside the
  window of the spec (\<open>d_lat <= 10\<close> and \<open>d_lon <= 20\<close>).
\<close>

lemma window_iff:
  assumes "fadd a b \<noteq> NaN"
  shows "(fgt a (Fin p) \<or> fgt b (Fin q)) \<longleftrightarrow> \<not> (fle a (Fin p) \<and> fle b (Fin q))"
proof -
  from assms have n: "a \<noteq> NaN" "b \<noteq> NaN" using fadd_not_NaN by blast+
  have a: "fgt a (Fin p) \<longleftrightarrow> \<not> fle a (Fin p)"
    using n(1) by (cases a) (simp_all add: fgt_def not_le)
  have b: "fgt b (Fin q) \<longleftrightarrow> \<not> fle b (Fin q)"
    using n(2) by (cases b) (simp_all add: fgt_def not_le)
  show ?thesis unfolding a b by blast
qed

lemma large_if_outside:
  assumes "\<not> within_window lat lon c_lat c_lon"
    and "flt d (manhattan lat lon c_lat c_lon)"
  shows "large_discrepancy lat lon c_lat c_lon"
proof -
  from assms(2) have "manhattan lat lon c_lat c_lon \<noteq> NaN" using flt_not_NaN by blast
  then show ?thesis using assms(1) window_iff by blast
qed


section \<open>The branches of the loop body\<close>

lemma correct_site_skip:
  "parsed_lat parse s = None \<or> parsed_lon parse s = None \<Longrightarrow>
   correct_site parse s corrections = (corrections, s)"
  by (auto simp: correct_site_def split: option.splits)

lemma correct_site_small:
  "parsed_lat parse s = Some lat \<Longrightarrow> parsed_lon parse s = Some lon \<Longrightarrow>
   centroid_of (get s ''CountryName'') = Some (c_lat, c_lon) \<Longrightarrow>
   \<not> large_discrepancy lat lon c_lat c_lon \<Longrightarrow>
   correct_site parse s corrections = (corrections, s)"
  by (simp add: correct_site_def)

lemma correct_site_swap:
  "parsed_lat parse s = Some lat \<Longrightarrow> parsed_lon parse s = Some lon \<Longrightarrow>
   centroid_of (get s ''CountryName'') = Some (c_lat, c_lon) \<Longrightarrow>
   large_discrepancy lat lon c_lat c_lon \<Longrightarrow>
   flt (manhattan lon lat c_lat c_lon) (manhattan lat lon c_lat c_lon) \<Longrightarrow>
   correct_site parse s corrections =
     (corrections @ [\<lparr>SiteID = get s ''SiteID'', SiteName = get s ''SiteName'',
               CountryName = get s ''CountryName'', action = swap_latlon, old = (lat, lon),
               new = Some (lon, lat), country_centroid = None\<rparr>],
      s(''Latitude'' \<mapsto> PFloat lon, ''Longitude'' \<mapsto> PFloat lat, ''Note'' \<mapsto> PStr swap_note))"
  by (simp add: correct_site_def log_swap_def setitem_def)

lemma correct_site_mismatch:
  "parsed_lat parse s = Some lat \<Longrightarrow> parsed_lon parse s = Some lon \<Longrightarrow>
   centroid_of (get s ''CountryName'') = Some (c_lat, c_lon) \<Longrightarrow>
   large_discrepancy lat lon c_lat c_lon \<Longrightarrow>
   \<not> flt (manhattan lon lat c_lat c_lon) (manhattan lat lon c_lat c_lon) \<Longrightarrow>
   correct_site parse s corrections =
     (corrections @ [\<lparr>SiteID = get s ''SiteID'', SiteName = get s ''SiteName'',
               CountryName = get s ''CountryName'', action = mismatch, old = (lat, lon),
               new = None, country_centroid = Some (c_lat, c_lon)\<rparr>],
      s(''Note'' \<mapsto> PStr review_note))"
  by (simp add: correct_site_def log_mismatch_def setitem_def)

lemma classify_skip:
  "parsed_lat parse s = None \<or> parsed_lon parse s = None \<Longrightarrow> classify parse s = None"
  by (auto simp: classify_def split: option.splits)

lemma classify_small:
  "parsed_lat parse s = Some lat \<Longrightarrow> parsed_lon parse s = Some lon \<Longrightarrow>
   centroid_of (get s ''CountryName'') = Some (c_lat, c_lon) \<Longrightarrow>
   \<not> large_discrepancy lat lon c_lat c_lon \<Longrightarrow>
   classify parse s = Some consistent"
  by (simp add: classify_def)


lemma classify_mismatch:
  "parsed_lat parse s = Some lat \<Longrightarrow> parsed_lon parse s = Some lon \<Longrightarrow>
   centroid_of (get s ''CountryName'') = Some (c_lat, c_lon) \<Longrightarrow>
   large_discrepancy lat lon c_lat c_lon \<Longrightarrow>
   \<not> flt (manhattan lon lat c_lat c_lon) (manhattan lat lon c_lat c_lon) \<Longrightarrow>
   classify parse s = Some unresolved_mismatch"
  by (simp add: classify_def)

text \<open>What the second pass reads from a row that the first pass has swapped.\<close>

lemma swapped_row_reads:
  "parsed_lat parse (s(''Latitude'' \<mapsto> PFloat lon, ''Longitude'' \<mapsto> PFloat lat,
      ''Note'' \<mapsto> PStr n)) = Some lon"
  "parsed_lon parse (s(''Latitude'' \<mapsto> PFloat lon, ''Longitude'' \<mapsto> PFloat lat,
      ''Note'' \<mapsto> PStr n)) = Some lat"
  "get (s(''Latitude'' \<mapsto> PFloat lon, ''Longitude'' \<mapsto> PFloat lat,
      ''Note'' \<mapsto> PStr n)) ''CountryName'' = get s ''CountryName''"
  "get (s(''Latitude'' \<mapsto> PFloat lon, ''Longitude'' \<mapsto> PFloat lat,
      ''Note'' \<mapsto> PStr n)) ''SiteID'' = get s ''SiteID''"
  "get (s(''Latitude'' \<mapsto> PFloat lon, ''Longitude'' \<mapsto> PFloat lat,
      ''Note'' \<mapsto> PStr n)) ''SiteName'' = get s ''SiteName''"
  by (simp_all add: py_float_def get_def get_default_def)

section \<open>Rounding decides ties and boundaries\<close>

text \<open>
  Three rows on which the doubles and the exact numbers part. For a coordinate pair
  beyond both components of the centroid the two exact distances are equal; at
  (40.0, 56.5) in the DRC the computed ones are 78.779669 for the transposed pair and
  the next double above it for the original pair, so line 127 holds and the row is
  swapped. At (10.000000000000002, 10.0) in South Africa the exact distance of the
  transposed pair is the smaller one, the two computed distances are the same double,
  and the row is a mismatch. At (5.961667, 21.758664) in the DRC the exact difference
  of the latitudes is above 10, the computed one is 10, and the row is consistent.
\<close>

lemma rounding_breaks_tie:
  "classify no_strings row_drc_tie = Some swap_correctable"
  by (simp add: classify_def py_float_def get_default_def get_def centroid_of_def
      country_centroids_def float_eval)

lemma rounding_makes_tie:
  "classify no_strings row_sa_near_tie = Some unresolved_mismatch"
  by (simp add: classify_def py_float_def get_default_def get_def centroid_of_def
      country_centroids_def float_eval)

lemma rounding_at_boundary:
  "classify no_strings row_drc_boundary = Some consistent"
  by (simp add: classify_def py_float_def get_default_def get_def centroid_of_def
      country_centroids_def float_eval)

section \<open>The loop and the join\<close>

text \<open>The body only appends to the log, and what it appends does not depend on the log.\<close>

lemma correct_site_append:
  "correct_site parse s corrections =
     (corrections @ fst (correct_site parse s []), snd (correct_site parse s []))"
  by (simp add: correct_site_def log_swap_def log_mismatch_def setitem_def Let_def
      split: option.splits prod.splits)

lemma correction_loop_eq:
  "correction_loop parse sites (corrections, corrected_sites) =
     (corrections @ concat (map (\<lambda>s. fst (correct_site parse s [])) sites),
      corrected_sites @ map (\<lambda>s. snd (correct_site parse s [])) sites)"
proof (induction sites arbitrary: corrections corrected_sites)
  case Nil
  show ?case by simp
next
  case (Cons s sites)
  have "correction_loop parse (s # sites) (corrections, corrected_sites) =
        correction_loop parse sites
          (corrections @ fst (correct_site parse s []),
           corrected_sites @ [snd (correct_site parse s [])])"
    by (simp add: correct_site_append [of parse s corrections])
  then show ?case by (simp add: Cons.IH)
qed

text \<open>With distinct index values at most one entry of the right frame matches a key.\<close>

lemma filter_distinct_key:
  "distinct (map fst right) \<Longrightarrow>
   filter (\<lambda>(k, v). k = x) right =
     (case map_of right x of None \<Rightarrow> [] | Some v \<Rightarrow> [(x, v)])"
proof (induction right)
  case Nil
  show ?case by simp
next
  case (Cons kv right)
  obtain k v where kv: "kv = (k, v)" by (cases kv)
  from Cons.prems kv have d: "distinct (map fst right)" and nk: "k \<notin> fst ` set right"
    by simp_all
  show ?case
  proof (cases "k = x")
    case True
    with nk have "map_of right x = None" by (simp add: map_of_eq_None_iff)
    with Cons.IH [OF d] True kv show ?thesis by simp
  next
    case False
    with Cons.IH [OF d] kv show ?thesis by simp
  qed
qed

lemma merge_left_distinct:
  assumes "distinct (map fst right)"
  shows "merge_left left_on col right left =
           map (\<lambda>row. row(col \<mapsto> name_or_nan right (get row left_on))) left"
proof -
  have "\<And>row. (case filter (\<lambda>(k, v). k = get row left_on) right of
                  [] \<Rightarrow> [row(col \<mapsto> PFloat NaN)]
                | ms \<Rightarrow> map (\<lambda>(k, v). row(col \<mapsto> v)) ms) =
               [row(col \<mapsto> name_or_nan right (get row left_on))]"
    by (simp add: filter_distinct_key [OF assms] split: option.splits)
  then show ?thesis by (simp add: merge_left_def)
qed

section \<open>The claims\<close>

subsection \<open>C1: a second pass over the output of the first\<close>

text \<open>
  C1 as the spec states it fails. A site of Australia (Mount Isa) stored transposed and
  assigned to South Africa is swapped by the first pass, since the swap brings it
  closer to the centroid; the swapped pair is still 116 degrees of longitude away, so
  the second pass finds it outside the window, classifies it as an unresolved
  mismatch, appends a mismatch entry and replaces the note.
\<close>

theorem second_pass_counterexample:
  "classify no_strings row_mount_isa = Some swap_correctable \<and>
   snd (correct_site no_strings row_mount_isa []) =
     row_mount_isa(''Latitude'' \<mapsto> PFloat (round64 (- 20.73)),
       ''Longitude'' \<mapsto> PFloat (round64 139.49), ''Note'' \<mapsto> PStr swap_note) \<and>
   classify no_strings (snd (correct_site no_strings row_mount_isa [])) =
     Some unresolved_mismatch \<and>
   correct_site no_strings (snd (correct_site no_strings row_mount_isa [])) [] =
     ([\<lparr>SiteID = PInt 8, SiteName = PNone, CountryName = PStr ''South Africa'',
        action = mismatch, old = (round64 (- 20.73), round64 139.49), new = None,
        country_centroid = Some (round64 (- 30.559482), round64 22.937506)\<rparr>],
      row_mount_isa(''Latitude'' \<mapsto> PFloat (round64 (- 20.73)),
        ''Longitude'' \<mapsto> PFloat (round64 139.49), ''Note'' \<mapsto> PStr review_note))"
  by (simp add: classify_def correct_site_def py_float_def get_default_def get_def
      centroid_of_def country_centroids_def float_eval log_swap_def log_mismatch_def
      setitem_def Let_def)

text \<open>
  C1, amended. Let the first pass swap a row (known centroid, coordinates outside the
  window, the transposed pair strictly closer). The second pass over the row it
  produced never swaps again. If the swapped pair lies within the window, the row is
  classified consistent, it is left as it is and no entry is appended. If not, the row
  is classified as an unresolved mismatch: its coordinates stay, one mismatch entry
  with the swapped pair as old value is appended, and the note is replaced by the
  request for a manual review. No swap entry is appended in either case. The window
  and the distances are those that lines 119, 124 and 125 compute on doubles.
\<close>

theorem second_pass_never_swaps:
  assumes "parsed_lat parse s = Some lat" and "parsed_lon parse s = Some lon"
    and "centroid_of (get s ''CountryName'') = Some (c_lat, c_lon)"
    and "\<not> within_window lat lon c_lat c_lon"
    and "flt (manhattan lon lat c_lat c_lon) (manhattan lat lon c_lat c_lon)"
  shows "snd (correct_site parse s corrections) =
           s(''Latitude'' \<mapsto> PFloat lon, ''Longitude'' \<mapsto> PFloat lat,
             ''Note'' \<mapsto> PStr swap_note) \<and>
         classify parse (snd (correct_site parse s corrections)) =
           Some (if within_window lon lat c_lat c_lon then consistent
                 else unresolved_mismatch) \<and>
         correct_site parse (snd (correct_site parse s corrections)) corrections2 =
           (if within_window lon lat c_lat c_lon
            then (corrections2, snd (correct_site parse s corrections))
            else (corrections2 @
                    [\<lparr>SiteID = get s ''SiteID'', SiteName = get s ''SiteName'',
                      CountryName = get s ''CountryName'', action = mismatch,
                      old = (lon, lat), new = None,
                      country_centroid = Some (c_lat, c_lon)\<rparr>],
                  (snd (correct_site parse s corrections))
                    (''Note'' \<mapsto> PStr review_note)))"
proof -
  let ?s1 = "s(''Latitude'' \<mapsto> PFloat lon, ''Longitude'' \<mapsto> PFloat lat,
               ''Note'' \<mapsto> PStr swap_note)"
  from assms(4,5) have "large_discrepancy lat lon c_lat c_lon"
    by (rule large_if_outside)
  with assms(1-3,5) have r: "snd (correct_site parse s corrections) = ?s1"
    by (simp add: correct_site_swap)
  have p1: "parsed_lat parse ?s1 = Some lon" and p2: "parsed_lon parse ?s1 = Some lat"
    by (rule swapped_row_reads)+
  have c: "centroid_of (get ?s1 ''CountryName'') = Some (c_lat, c_lon)"
    using assms(3) by (simp only: swapped_row_reads)
  have n: "\<not> flt (manhattan lat lon c_lat c_lon) (manhattan lon lat c_lat c_lon)"
    using assms(5) by (rule flt_asym)
  from assms(5) have "manhattan lon lat c_lat c_lon \<noteq> NaN"
    using flt_not_NaN by blast
  then have w: "large_discrepancy lon lat c_lat c_lon \<longleftrightarrow> \<not> within_window lon lat c_lat c_lon"
    by (rule window_iff)
  show ?thesis
  proof (cases "within_window lon lat c_lat c_lon")
    case True
    with w have s: "\<not> large_discrepancy lon lat c_lat c_lon" by blast
    have "classify parse ?s1 = Some consistent"
      using p1 p2 c s by (rule classify_small)
    moreover have "correct_site parse ?s1 corrections2 = (corrections2, ?s1)"
      using p1 p2 c s by (rule correct_site_small)
    ultimately show ?thesis using True by (simp only: r if_True simp_thms)
  next
    case False
    with w have l: "large_discrepancy lon lat c_lat c_lon" by blast
    have "classify parse ?s1 = Some unresolved_mismatch"
      using p1 p2 c l n by (rule classify_mismatch)
    moreover have "correct_site parse ?s1 corrections2 =
      (corrections2 @
         [\<lparr>SiteID = get ?s1 ''SiteID'', SiteName = get ?s1 ''SiteName'',
           CountryName = get ?s1 ''CountryName'', action = mismatch,
           old = (lon, lat), new = None, country_centroid = Some (c_lat, c_lon)\<rparr>],
       ?s1(''Note'' \<mapsto> PStr review_note))"
      using p1 p2 c l n by (rule correct_site_mismatch)
    ultimately show ?thesis using False by (simp only: r if_False simp_thms swapped_row_reads)
  qed
qed

text \<open>
  The scenario of the spec: the South African row stored as (22.94, -30.56) is swapped,
  and the second pass leaves the swapped row alone.
\<close>

theorem second_pass_never_swaps_witness:
  "parsed_lat no_strings row_sa_transposed = Some (round64 22.94) \<and>
   parsed_lon no_strings row_sa_transposed = Some (round64 (- 30.56)) \<and>
   centroid_of (get row_sa_transposed ''CountryName'') = Some (round64 (- 30.559482), round64 22.937506) \<and>
   \<not> within_window (round64 22.94) (round64 (- 30.56)) (round64 (- 30.559482)) (round64 22.937506) \<and>
   flt (manhattan (round64 (- 30.56)) (round64 22.94) (round64 (- 30.559482)) (round64 22.937506))
       (manhattan (round64 22.94) (round64 (- 30.56)) (round64 (- 30.559482)) (round64 22.937506)) \<and>
   within_window (round64 (- 30.56)) (round64 22.94) (round64 (- 30.559482)) (round64 22.937506) \<and>
   classify no_strings (snd (correct_site no_strings row_sa_transposed [])) = Some consistent \<and>
   correct_site no_strings (snd (correct_site no_strings row_sa_transposed [])) [] =
     ([], row_sa_transposed(''Latitude'' \<mapsto> PFloat (round64 (- 30.56)),
            ''Longitude'' \<mapsto> PFloat (round64 22.94), ''Note'' \<mapsto> PStr swap_note))"
proof -
  have h1: "parsed_lat no_strings row_sa_transposed = Some (round64 22.94)"
    by (simp add: py_float_def get_default_def)
  have h2: "parsed_lon no_strings row_sa_transposed = Some (round64 (- 30.56))"
    by (simp add: py_float_def get_default_def)
  have h3: "centroid_of (get row_sa_transposed ''CountryName'') =
              Some (round64 (- 30.559482), round64 22.937506)"
    by (simp add: centroid_of_def get_def get_default_def country_centroids_def)
  have h4: "\<not> within_window (round64 22.94) (round64 (- 30.56)) (round64 (- 30.559482)) (round64 22.937506)"
    by (simp add: float_eval)
  have h5: "flt (manhattan (round64 (- 30.56)) (round64 22.94) (round64 (- 30.559482)) (round64 22.937506))
       (manhattan (round64 22.94) (round64 (- 30.56)) (round64 (- 30.559482)) (round64 22.937506))"
    by (simp add: float_eval)
  have w: "within_window (round64 (- 30.56)) (round64 22.94) (round64 (- 30.559482)) (round64 22.937506)"
    by (simp add: float_eval)
  note t = second_pass_never_swaps [OF h1 h2 h3 h4 h5, of "[]" "[]"]
  from t have r: "snd (correct_site no_strings row_sa_transposed []) =
      row_sa_transposed(''Latitude'' \<mapsto> PFloat (round64 (- 30.56)),
            ''Longitude'' \<mapsto> PFloat (round64 22.94), ''Note'' \<mapsto> PStr swap_note)"
    by (rule conjunct1)
  from t have c0: "classify no_strings (snd (correct_site no_strings row_sa_transposed [])) =
      Some (if within_window (round64 (- 30.56)) (round64 22.94) (round64 (- 30.559482)) (round64 22.937506)
            then consistent else unresolved_mismatch)"
    by (rule conjunct2 [THEN conjunct1])
  from c0 w have c: "classify no_strings (snd (correct_site no_strings row_sa_transposed [])) =
      Some consistent"
    by (simp only: if_True simp_thms)
  note n0 = t [THEN conjunct2, THEN conjunct2]
  from n0 w have n: "correct_site no_strings (snd (correct_site no_strings row_sa_transposed [])) [] =
      ([], snd (correct_site no_strings row_sa_transposed []))"
    by (simp only: if_True simp_thms)
  show ?thesis
    using h1 h2 h3 h4 h5 w c n unfolding r by (simp only: simp_thms)
qed

subsection \<open>C2: a swap that brings the row strictly closer\<close>



subsection \<open>C3: a mismatch that a swap does not improve\<close>



subsection \<open>C4: coordinates that are malformed or missing\<close>

text \<open>
  C4 as the spec states it fails for a missing coordinate. An empty latitude cell is
  NaN in the row, which \<^verbatim>\<open>float\<close> accepts: the row is validated, every comparison
  with the NaN distance is false, and with a longitude outside the window the row gets
  a mismatch entry and a note. A row with no latitude key at all is read as latitude 0
  (the default of line 109) and validated as such.
\<close>

theorem missing_coordinate_counterexample:
  "parsed_lat no_strings row_empty_lat = Some NaN \<and>
   correct_site no_strings row_empty_lat [] =
     ([\<lparr>SiteID = PInt 4, SiteName = PNone, CountryName = PStr ''South Africa'',
        action = mismatch, old = (NaN, round64 (- 26.2)), new = None,
        country_centroid = Some (round64 (- 30.559482), round64 22.937506)\<rparr>],
      row_empty_lat(''Note'' \<mapsto> PStr review_note)) \<and>
   row_no_lat ''Latitude'' = None \<and>
   parsed_lat no_strings row_no_lat = Some (Fin 0) \<and>
   correct_site no_strings row_no_lat [] =
     ([\<lparr>SiteID = PInt 5, SiteName = PNone, CountryName = PStr ''Namibia'',
        action = mismatch, old = (Fin 0, round64 18.49), new = None,
        country_centroid = Some (round64 (- 22.9576), round64 18.4904)\<rparr>],
      row_no_lat(''Note'' \<mapsto> PStr review_note))"
  by (simp add: correct_site_def py_float_def get_default_def get_def centroid_of_def
      country_centroids_def float_eval log_mismatch_def setitem_def Let_def)

text \<open>
  C4, amended. A row whose latitude or longitude \<^verbatim>\<open>float\<close> does not convert (a
  string that is not a number, or \<^verbatim>\<open>None\<close>) is passed through unchanged: it gets no
  classification, no entry is appended to the log, and the body returns normally. A
  row that lacks the latitude or the longitude key is read as 0 there, and is
  validated like any other row.
\<close>

theorem nonnumeric_passthrough:
  "(parsed_lat parse s = None \<or> parsed_lon parse s = None \<longrightarrow>
      classify parse s = None \<and> correct_site parse s corrections = (corrections, s)) \<and>
   (s ''Latitude'' = None \<longrightarrow> parsed_lat parse s = Some (Fin 0)) \<and>
   (s ''Longitude'' = None \<longrightarrow> parsed_lon parse s = Some (Fin 0))"
  using classify_skip [of parse s] correct_site_skip [of parse s corrections]
  by (simp add: py_float_def get_default_def round64_0)

theorem nonnumeric_passthrough_witness:
  "(parsed_lat no_strings row_text_lat = None \<or> parsed_lon no_strings row_text_lat = None) \<and>
   classify no_strings row_text_lat = None \<and>
   correct_site no_strings row_text_lat [] = ([], row_text_lat) \<and>
   row_no_lat ''Latitude'' = None \<and>
   parsed_lat no_strings row_no_lat = Some (Fin 0)"
proof -
  have h: "parsed_lat no_strings row_text_lat = None \<or> parsed_lon no_strings row_text_lat = None"
    by (simp add: py_float_def get_default_def)
  have k: "row_no_lat ''Latitude'' = None" by simp
  note t = nonnumeric_passthrough [of no_strings row_text_lat "[]", THEN conjunct1,
      rule_format, OF h]
  note u = nonnumeric_passthrough [of no_strings row_no_lat "[]", THEN conjunct2,
      THEN conjunct1, rule_format, OF k]
  show ?thesis using h k t u by blast
qed

subsection \<open>C5: a country without a centroid\<close>

text \<open>
  C5. No corruption on an unknown country: a row whose country name has no entry in
  the centroid table (a name outside the table, a name the join left as NaN, or no
  name at all) comes out of the loop body as it went in, with every field as it was,
  and the log is as it was: no entry is appended. This holds for every row, every log
  and every behaviour of \<^verbatim>\<open>float\<close> on strings.
\<close>

theorem unknown_country_untouched:
  "centroid_of (get s ''CountryName'') = None \<Longrightarrow>
   correct_site parse s corrections = (corrections, s)"
  by (simp add: correct_site_def split: option.splits)

text \<open>The scenario of the spec: a row whose country identifier the join did not resolve.\<close>

theorem unknown_country_untouched_witness:
  "centroid_of (get row_unknown_country ''CountryName'') = None \<and>
   correct_site no_strings row_unknown_country [] = ([], row_unknown_country)"
proof -
  have h: "centroid_of (get row_unknown_country ''CountryName'') = None"
    by (simp add: centroid_of_def get_def get_default_def)
  show ?thesis
    using h unknown_country_untouched [OF h, of no_strings "[]"] by simp
qed

subsection \<open>C6: a row within the window\<close>

text \<open>
  C6. The consistency window is a no-op: a row whose country has a known centroid and
  whose parsed coordinates satisfy \<open>|lat - c_lat| <= 10\<close> and \<open>|lon - c_lon| <= 20\<close> is
  classified consistent, every field of it is left as it was, and no entry is
  appended to the log.
\<close>

theorem consistency_window_noop:
  assumes "parsed_lat parse s = Some lat" and "parsed_lon parse s = Some lon"
    and "centroid_of (get s ''CountryName'') = Some (c_lat, c_lon)"
    and "fle (fabs (fsub lat c_lat)) (Fin 10) \<and> fle (fabs (fsub lon c_lon)) (Fin 20)"
  shows "classify parse s = Some consistent \<and>
         correct_site parse s corrections = (corrections, s)"
proof -
  from assms(4) have "\<not> large_discrepancy lat lon c_lat c_lon"
    using fle_not_fgt by blast
  with assms(1-3) show ?thesis
    using classify_small correct_site_small by blast
qed

text \<open>A site at Johannesburg whose longitude is the string \<^verbatim>\<open>'28.04'\<close>: the row keeps it.\<close>

theorem consistency_window_noop_witness:
  "parsed_lat parse_2804 row_johannesburg = Some (round64 (- 26.2)) \<and>
   parsed_lon parse_2804 row_johannesburg = Some (round64 28.04) \<and>
   centroid_of (get row_johannesburg ''CountryName'') = Some (round64 (- 30.559482), round64 22.937506) \<and>
   fle (fabs (fsub (round64 (- 26.2)) (round64 (- 30.559482)))) (Fin 10) \<and>
   fle (fabs (fsub (round64 28.04) (round64 22.937506))) (Fin 20) \<and>
   classify parse_2804 row_johannesburg = Some consistent \<and>
   correct_site parse_2804 row_johannesburg [] = ([], row_johannesburg)"
proof -
  have h1: "parsed_lat parse_2804 row_johannesburg = Some (round64 (- 26.2))"
    by (simp add: py_float_def get_default_def)
  have h2: "parsed_lon parse_2804 row_johannesburg = Some (round64 28.04)"
    by (simp add: py_float_def get_default_def)
  have h3: "centroid_of (get row_johannesburg ''CountryName'') =
              Some (round64 (- 30.559482), round64 22.937506)"
    by (simp add: centroid_of_def get_def get_default_def country_centroids_def)
  have h4: "fle (fabs (fsub (round64 (- 26.2)) (round64 (- 30.559482)))) (Fin 10) \<and>
   fle (fabs (fsub (round64 28.04) (round64 22.937506))) (Fin 20)"
    by (simp add: float_eval)
  show ?thesis
    using h1 h2 h3 h4 consistency_window_noop [OF h1 h2 h3 h4, of "[]"] by simp
qed

subsection \<open>C7: the join and the loop keep the rows\<close>

text \<open>
  C7 as the spec states it fails when a reference table repeats an identifier, which
  the concatenation of line 37 does not exclude: the left merge yields one row per
  matching entry, so the site row below comes out twice.
\<close>

theorem join_duplicates_counterexample:
  "raw_site_row raw_row_a \<and>
   map (\<lambda>r. r ''SiteID'')
     (snd (load_sites no_strings
             [(PInt 2, PStr ''Copper''), (PInt 2, PStr ''Copper'')] [(PInt 10, PStr ''Namibia'')]
             [raw_row_a])) = [Some (PInt 1), Some (PInt 1)]"
  by (simp add: raw_site_row_def int_key_def load_sites_def merge_left_def get_def
      get_default_def correction_loop_eq correct_site_def py_float_def centroid_of_def
      country_centroids_def float_eval)

text \<open>
  C7, amended. Let no identifier occur twice in the index of the mineral table nor in
  that of the country table (identifiers are integers, and the site rows have their
  two identifiers and no name column of their own). Then the join followed by the
  correction loop yields exactly one row per input row, in the order of the input: the
  output has the length of the input and its i-th row has the site identifier of the
  i-th input row. Its mineral name is the name that the table gives to the mineral
  identifier of the i-th input row when the table has that identifier, and NaN
  otherwise; likewise for the country name.
\<close>

theorem join_preserves_rows:
  assumes "distinct (map fst minerals_indexed)" and "distinct (map fst countries_indexed)"
    and "reference_table minerals_indexed" and "reference_table countries_indexed"
    and "list_all raw_site_row sites_df"
  shows "length (snd (load_sites parse minerals_indexed countries_indexed sites_df)) =
           length sites_df \<and>
         (\<forall>i < length sites_df.
            (snd (load_sites parse minerals_indexed countries_indexed sites_df) ! i) ''SiteID'' =
              (sites_df ! i) ''SiteID'' \<and>
            (snd (load_sites parse minerals_indexed countries_indexed sites_df) ! i) ''MineralName'' =
              Some (name_or_nan minerals_indexed (get (sites_df ! i) ''MineralID'')) \<and>
            (snd (load_sites parse minerals_indexed countries_indexed sites_df) ! i) ''CountryName'' =
              Some (name_or_nan countries_indexed (get (sites_df ! i) ''CountryID'')))"
proof -
  let ?join = "\<lambda>row. (row(''MineralName'' \<mapsto> name_or_nan minerals_indexed (get row ''MineralID'')))
                        (''CountryName'' \<mapsto> name_or_nan countries_indexed (get row ''CountryID''))"
  have j: "merge_left ''CountryID'' ''CountryName'' countries_indexed
             (merge_left ''MineralID'' ''MineralName'' minerals_indexed sites_df) =
           map ?join sites_df"
    by (simp add: merge_left_distinct [OF assms(1)] merge_left_distinct [OF assms(2)]
        get_def get_default_def)
  have out: "snd (load_sites parse minerals_indexed countries_indexed sites_df) =
             map (\<lambda>row. snd (correct_site parse (?join row) [])) sites_df"
    by (simp add: load_sites_def j correction_loop_eq)
  have frame: "\<And>k s. k \<notin> {''Latitude'', ''Longitude'', ''Note''} \<Longrightarrow>
                 snd (correct_site parse s []) k = s k"
    by (simp add: correct_site_def log_swap_def log_mismatch_def setitem_def Let_def
        split: option.splits prod.splits)
  show ?thesis
    by (simp add: out frame)
qed

text \<open>Two rows, the second with identifiers that neither table has.\<close>

theorem join_preserves_rows_witness:
  "distinct (map fst [(PInt 1, PStr ''Gold''), (PInt 2, PStr ''Copper'')]) \<and>
   distinct (map fst [(PInt 10, PStr ''Namibia'')]) \<and>
   reference_table [(PInt 1, PStr ''Gold''), (PInt 2, PStr ''Copper'')] \<and>
   reference_table [(PInt 10, PStr ''Namibia'')] \<and>
   list_all raw_site_row [raw_row_a, raw_row_b] \<and>
   length (snd (load_sites no_strings [(PInt 1, PStr ''Gold''), (PInt 2, PStr ''Copper'')]
                  [(PInt 10, PStr ''Namibia'')] [raw_row_a, raw_row_b])) = 2 \<and>
   (snd (load_sites no_strings [(PInt 1, PStr ''Gold''), (PInt 2, PStr ''Copper'')]
           [(PInt 10, PStr ''Namibia'')] [raw_row_a, raw_row_b]) ! 0) ''MineralName'' =
     Some (PStr ''Copper'') \<and>
   (snd (load_sites no_strings [(PInt 1, PStr ''Gold''), (PInt 2, PStr ''Copper'')]
           [(PInt 10, PStr ''Namibia'')] [raw_row_a, raw_row_b]) ! 1) ''SiteID'' = Some (PInt 2) \<and>
   (snd (load_sites no_strings [(PInt 1, PStr ''Gold''), (PInt 2, PStr ''Copper'')]
           [(PInt 10, PStr ''Namibia'')] [raw_row_a, raw_row_b]) ! 1) ''MineralName'' =
     Some (PFloat NaN) \<and>
   (snd (load_sites no_strings [(PInt 1, PStr ''Gold''), (PInt 2, PStr ''Copper'')]
           [(PInt 10, PStr ''Namibia'')] [raw_row_a, raw_row_b]) ! 1) ''CountryName'' =
     Some (PFloat NaN)"
proof -
  have d1: "distinct (map fst [(PInt 1, PStr ''Gold''), (PInt 2, PStr ''Copper'')])" by simp
  have d2: "distinct (map fst [(PInt 10, PStr ''Namibia'')])" by simp
  have r1: "reference_table [(PInt 1, PStr ''Gold''), (PInt 2, PStr ''Copper'')]"
    by (simp add: reference_table_def int_key_def)
  have r2: "reference_table [(PInt 10, PStr ''Namibia'')]"
    by (simp add: reference_table_def int_key_def)
  have w: "list_all raw_site_row [raw_row_a, raw_row_b]"
    by (simp add: raw_site_row_def int_key_def get_def get_default_def)
  note t = join_preserves_rows [OF d1 d2 r1 r2 w, of no_strings]
  have l0: "(0::nat) < length [raw_row_a, raw_row_b]" by simp
  have l1: "(1::nat) < length [raw_row_a, raw_row_b]" by simp
  note t1 = t [THEN conjunct1]
  note t2 = t [THEN conjunct2, rule_format, OF l0]
  note t3 = t [THEN conjunct2, rule_format, OF l1]
  show ?thesis
    using d1 d2 r1 r2 w t1 t2 t3 by (simp add: get_def get_default_def)
qed

subsection \<open>C8: what the loop body may change\<close>

text \<open>
  C8. Frame condition of the correction pass: for every row, the pass changes at most
  the latitude field, the longitude field and the note. Every other key of the row
  (identifier, name, mineral identifier and name, country identifier and name,
  production quantity, and whatever else the row holds) has in the output the value,
  or the absence, that it has in the input.
\<close>

theorem correction_frame:
  "k \<notin> {''Latitude'', ''Longitude'', ''Note''} \<Longrightarrow>
   snd (correct_site parse s corrections) k = s k"
  by (simp add: correct_site_def log_swap_def log_mismatch_def setitem_def Let_def
      split: option.splits prod.splits)

text \<open>On the row that is swapped, the identifier stays and the latitude does not.\<close>

theorem correction_frame_witness:
  "''SiteID'' \<notin> {''Latitude'', ''Longitude'', ''Note''} \<and>
   snd (correct_site no_strings row_sa_transposed []) ''SiteID'' = Some (PInt 1) \<and>
   snd (correct_site no_strings row_sa_transposed []) ''Latitude'' \<noteq>
     row_sa_transposed ''Latitude''"
proof -
  have h: "''SiteID'' \<notin> {''Latitude'', ''Longitude'', ''Note''}" by simp
  have c: "snd (correct_site no_strings row_sa_transposed []) ''Latitude'' \<noteq>
     row_sa_transposed ''Latitude''"
    by (simp add: correct_site_def py_float_def get_default_def get_def centroid_of_def
      country_centroids_def float_eval log_swap_def setitem_def Let_def)
  show ?thesis
    using h c correction_frame [OF h, of no_strings row_sa_transposed "[]"] by simp
qed

subsection \<open>C9: the provenance note\<close>

text \<open>
  C9 as the spec states it fails. Line 139 is inside the branch of line 119, so a row
  that the pass leaves untouched gets no note: the consistent row below has no
  \<^verbatim>\<open>Note\<close> key in the output, not an empty note. And an untouched row keeps the note
  it came with: the swapped South African row, given to the pass again, is consistent
  and still carries the note of the swap.
\<close>

theorem empty_note_counterexample:
  "classify parse_2804 row_johannesburg = Some consistent \<and>
   snd (correct_site parse_2804 row_johannesburg []) ''Note'' = None \<and>
   snd (correct_site parse_2804 row_johannesburg []) ''Note'' \<noteq> Some (PStr '''') \<and>
   classify no_strings
     (row_sa_transposed(''Latitude'' \<mapsto> PFloat (round64 (- 30.56)),
        ''Longitude'' \<mapsto> PFloat (round64 22.94), ''Note'' \<mapsto> PStr swap_note)) = Some consistent \<and>
   snd (correct_site no_strings
     (row_sa_transposed(''Latitude'' \<mapsto> PFloat (round64 (- 30.56)),
        ''Longitude'' \<mapsto> PFloat (round64 22.94), ''Note'' \<mapsto> PStr swap_note)) []) ''Note'' =
     Some (PStr swap_note)"
  by (simp add: classify_def correct_site_def py_float_def get_default_def get_def
      centroid_of_def country_centroids_def float_eval)

text \<open>
  C9, amended. The pass writes a note on the rows it flags and on no other row: a row
  classified \<open>swap_correctable\<close> carries the note of the swap, a row classified
  \<open>unresolved_mismatch\<close> the request for a manual review, and every other row
  (consistent, unknown country, malformed coordinates) comes out as it went in, so it
  has the note it had on input and none when it had none.
\<close>

theorem note_only_when_flagged:
  "snd (correct_site parse s corrections) ''Note'' =
     (case classify parse s of
        Some swap_correctable \<Rightarrow> Some (PStr swap_note)
      | Some unresolved_mismatch \<Rightarrow> Some (PStr review_note)
      | _ \<Rightarrow> s ''Note'') \<and>
   (classify parse s \<noteq> Some swap_correctable \<and> classify parse s \<noteq> Some unresolved_mismatch
      \<longrightarrow> snd (correct_site parse s corrections) = s)"
  by (simp add: classify_def correct_site_def log_swap_def log_mismatch_def setitem_def Let_def
      split: option.splits prod.splits)

theorem note_only_when_flagged_witness:
  "classify parse_2804 row_johannesburg \<noteq> Some swap_correctable \<and>
   classify parse_2804 row_johannesburg \<noteq> Some unresolved_mismatch \<and>
   snd (correct_site parse_2804 row_johannesburg []) = row_johannesburg"
proof -
  have c: "classify parse_2804 row_johannesburg \<noteq> Some swap_correctable \<and>
           classify parse_2804 row_johannesburg \<noteq> Some unresolved_mismatch"
    by (simp add: classify_def py_float_def get_default_def get_def
      centroid_of_def country_centroids_def float_eval)
  note t = note_only_when_flagged
    [of parse_2804 row_johannesburg "[]", THEN conjunct2, rule_format, OF c]
  show ?thesis using c t by blast
qed

subsection \<open>C10: the log holds the values before the correction\<close>

text \<open>
  C10. Audit before mutation. Every entry that the body appends for a row has as its
  old pair the coordinates parsed from the row as it came in, and a swap entry has as
  its new pair the old pair transposed. In the swap branch the entry is appended
  first: the statement of lines 128 and 129 leaves the row as it was, and the three
  assignments to the row act on a state whose log already holds the entry and do not
  touch the log. The entries of a run are in the log in the order in which the rows
  are processed: the log of the loop is the concatenation, in input order, of what the
  body appends for each row.
\<close>

theorem audit_before_mutation:
  "(\<exists>es. fst (correct_site parse s corrections) = corrections @ es \<and>
      (\<forall>e \<in> set es.
         parsed_lat parse s = Some (fst (old e)) \<and>
         parsed_lon parse s = Some (snd (old e)) \<and>
         (action e = swap_latlon \<longrightarrow> new e = Some (snd (old e), fst (old e))))) \<and>
   (\<forall>lat lon.
      parsed_lat parse s = Some lat \<longrightarrow> parsed_lon parse s = Some lon \<longrightarrow>
      classify parse s = Some swap_correctable \<longrightarrow>
      (\<exists>e. action e = swap_latlon \<and> old e = (lat, lon) \<and> new e = Some (lon, lat) \<and>
           log_swap (get s ''CountryName'') lat lon lon lat (corrections, s) =
             (corrections @ [e], s) \<and>
           correct_site parse s corrections =
             setitem ''Note'' (PStr swap_note)
               (setitem ''Longitude'' (PFloat lat)
                  (setitem ''Latitude'' (PFloat lon) (corrections @ [e], s))))) \<and>
   (\<forall>k v st. fst (setitem k v st) = fst st) \<and>
   fst (correction_loop parse sites ([], [])) =
     concat (map (\<lambda>s. fst (correct_site parse s [])) sites)"
proof (intro conjI)
  show "\<exists>es. fst (correct_site parse s corrections) = corrections @ es \<and>
      (\<forall>e \<in> set es.
         parsed_lat parse s = Some (fst (old e)) \<and>
         parsed_lon parse s = Some (snd (old e)) \<and>
         (action e = swap_latlon \<longrightarrow> new e = Some (snd (old e), fst (old e))))"
    by (simp add: correct_site_def log_swap_def log_mismatch_def setitem_def Let_def
        split: option.splits prod.splits)
next
  show "\<forall>lat lon.
      parsed_lat parse s = Some lat \<longrightarrow> parsed_lon parse s = Some lon \<longrightarrow>
      classify parse s = Some swap_correctable \<longrightarrow>
      (\<exists>e. action e = swap_latlon \<and> old e = (lat, lon) \<and> new e = Some (lon, lat) \<and>
           log_swap (get s ''CountryName'') lat lon lon lat (corrections, s) =
             (corrections @ [e], s) \<and>
           correct_site parse s corrections =
             setitem ''Note'' (PStr swap_note)
               (setitem ''Longitude'' (PFloat lat)
                  (setitem ''Latitude'' (PFloat lon) (corrections @ [e], s))))"
    by (simp add: classify_def correct_site_def log_swap_def log_mismatch_def setitem_def Let_def
        split: option.splits prod.splits if_splits)
next
  show "\<forall>k v st. fst (setitem k v st) = fst st"
    by (simp add: setitem_def split: prod.splits)
next
  show "fst (correction_loop parse sites ([], [])) =
     concat (map (\<lambda>s. fst (correct_site parse s [])) sites)"
    by (simp add: correction_loop_eq)
qed

text \<open>
  The swapped South African row, and a run over it and the Namibian row: the swap
  entry comes first, the mismatch entry second.
\<close>

theorem audit_before_mutation_witness:
  "parsed_lat no_strings row_sa_transposed = Some (round64 22.94) \<and>
   parsed_lon no_strings row_sa_transposed = Some (round64 (- 30.56)) \<and>
   classify no_strings row_sa_transposed = Some swap_correctable \<and>
   (\<exists>e. action e = swap_latlon \<and> old e = (round64 22.94, round64 (- 30.56)) \<and>
        new e = Some (round64 (- 30.56), round64 22.94) \<and>
        log_swap (get row_sa_transposed ''CountryName'') (round64 22.94) (round64 (- 30.56))
          (round64 (- 30.56)) (round64 22.94) ([], row_sa_transposed) = ([] @ [e], row_sa_transposed) \<and>
        correct_site no_strings row_sa_transposed [] =
          setitem ''Note'' (PStr swap_note)
            (setitem ''Longitude'' (PFloat (round64 22.94))
               (setitem ''Latitude'' (PFloat (round64 (- 30.56))) ([] @ [e], row_sa_transposed)))) \<and>
   fst (correction_loop no_strings [row_sa_transposed, row_namibia_tie] ([], [])) =
     [\<lparr>SiteID = PInt 1, SiteName = PStr ''Venetia'', CountryName = PStr ''South Africa'',
       action = swap_latlon, old = (round64 22.94, round64 (- 30.56)),
       new = Some (round64 (- 30.56), round64 22.94), country_centroid = None\<rparr>,
      \<lparr>SiteID = PInt 2, SiteName = PStr ''Rossing'', CountryName = PStr ''Namibia'',
       action = mismatch, old = (Fin 5.0, Fin 5.0), new = None,
       country_centroid = Some (round64 (- 22.9576), round64 18.4904)\<rparr>]"
proof -
  have h1: "parsed_lat no_strings row_sa_transposed = Some (round64 22.94)"
    by (simp add: py_float_def get_default_def)
  have h2: "parsed_lon no_strings row_sa_transposed = Some (round64 (- 30.56))"
    by (simp add: py_float_def get_default_def)
  have h3: "classify no_strings row_sa_transposed = Some swap_correctable"
    by (simp add: classify_def py_float_def get_default_def get_def centroid_of_def
        country_centroids_def float_eval)
  note t = audit_before_mutation
    [of no_strings row_sa_transposed "[]" "[row_sa_transposed, row_namibia_tie]"]
  note t2 = t [THEN conjunct2, THEN conjunct1, rule_format, OF h1 h2 h3]
  note t3 = t [THEN conjunct2, THEN conjunct2, THEN conjunct2]
  have e1: "fst (correct_site no_strings row_sa_transposed []) =
     [\<lparr>SiteID = PInt 1, SiteName = PStr ''Venetia'', CountryName = PStr ''South Africa'',
       action = swap_latlon, old = (round64 22.94, round64 (- 30.56)),
       new = Some (round64 (- 30.56), round64 22.94), country_centroid = None\<rparr>]"
    by (simp add: correct_site_def py_float_def get_default_def get_def centroid_of_def
        country_centroids_def float_eval log_swap_def setitem_def Let_def)
  have e2: "fst (correct_site no_strings row_namibia_tie []) =
     [\<lparr>SiteID = PInt 2, SiteName = PStr ''Rossing'', CountryName = PStr ''Namibia'',
       action = mismatch, old = (Fin 5.0, Fin 5.0), new = None,
       country_centroid = Some (round64 (- 22.9576), round64 18.4904)\<rparr>]"
    by (simp add: correct_site_def py_float_def get_default_def get_def centroid_of_def
        country_centroids_def float_eval log_mismatch_def setitem_def Let_def)
  have l: "fst (correction_loop no_strings [row_sa_transposed, row_namibia_tie] ([], [])) =
     [\<lparr>SiteID = PInt 1, SiteName = PStr ''Venetia'', CountryName = PStr ''South Africa'',
       action = swap_latlon, old = (round64 22.94, round64 (- 30.56)),
       new = Some (round64 (- 30.56), round64 22.94), country_centroid = None\<rparr>,
      \<lparr>SiteID = PInt 2, SiteName = PStr ''Rossing'', CountryName = PStr ''Namibia'',
       action = mismatch, old = (Fin 5.0, Fin 5.0), new = None,
       country_centroid = Some (round64 (- 22.9576), round64 18.4904)\<rparr>]"
    unfolding t3 by (simp only: list.map concat.simps e1 e2 append.simps)
  show ?thesis
    using h1 h2 h3 t2 l by blast
qed

end
